theory Spec2Isabelle
  imports Complex_Main "HOL-Library.Sublist" "HOL-Library.Multiset"
begin

section \<open>Python strings\<close>

text \<open>
  A Python \<open>str\<close> is modelled as a \<open>string\<close> whose characters stand for the code
  points below 256. Scores, which the source holds in floats, are modelled as exact
  rationals; integers are \<open>int\<close>, list positions and lengths are \<open>nat\<close>.
\<close>

text \<open>\<open>str.isspace\<close> on one code point below 256.\<close>

definition isspace :: "char \<Rightarrow> bool" where
  "isspace c = (let n = (of_char c :: nat) in
     (9 \<le> n \<and> n \<le> 13) \<or> (28 \<le> n \<and> n \<le> 32) \<or> n = 133 \<or> n = 160)"

definition lstrip :: "string \<Rightarrow> string" where
  "lstrip s = dropWhile isspace s"

definition rstrip :: "string \<Rightarrow> string" where
  "rstrip s = rev (dropWhile isspace (rev s))"

text \<open>\<open>s.strip()\<close>\<close>

definition strip :: "string \<Rightarrow> string" where
  "strip s = rstrip (lstrip s)"

text \<open>\<open>str.lower\<close> on one code point below 256.\<close>

definition lower_char :: "char \<Rightarrow> char" where
  "lower_char c = (let n = (of_char c :: nat) in
     if (65 \<le> n \<and> n \<le> 90) \<or> (192 \<le> n \<and> n \<le> 222 \<and> n \<noteq> 215)
     then char_of (n + 32) else c)"

definition lower :: "string \<Rightarrow> string" where
  "lower s = map lower_char s"

text \<open>\<open>str.isalnum\<close> on one ASCII code point (used only on the side of the specification).\<close>

definition isalnum :: "char \<Rightarrow> bool" where
  "isalnum c = (let n = (of_char c :: nat) in
     (48 \<le> n \<and> n \<le> 57) \<or> (65 \<le> n \<and> n \<le> 90) \<or> (97 \<le> n \<and> n \<le> 122))"


section \<open>Index names (\<open>ragnarok/vector_db.py\<close>)\<close>

text \<open>\<open>ES_INDEX_REPLACE_CHARS = ' "#*+,./:<>?\\_|'\<close>\<close>

definition ES_INDEX_REPLACE_CHARS :: string where
  "ES_INDEX_REPLACE_CHARS =
     [CHR '' '', CHR 0x22, CHR ''#'', CHR ''*'', CHR ''+'', CHR '','', CHR ''.'', CHR ''/'',
      CHR '':'', CHR ''<'', CHR ''>'', CHR ''?'', CHR 0x5C, CHR ''_'', CHR ''|'']"

text \<open>\<open>ES_INDEX_TRANSLATOR = str.maketrans({x: "-" for x in ES_INDEX_REPLACE_CHARS})\<close>,
  applied to one character by \<open>str.translate\<close>.\<close>

definition ES_INDEX_TRANSLATOR :: "char \<Rightarrow> char" where
  "ES_INDEX_TRANSLATOR c = (if c \<in> set ES_INDEX_REPLACE_CHARS then CHR ''-'' else c)"

definition translate :: "(char \<Rightarrow> char) \<Rightarrow> string \<Rightarrow> string" where
  "translate table s = map table s"

text \<open>\<open>VectorStore._normalize_model_name\<close>\<close>

definition normalize_model_name :: "string \<Rightarrow> string" where
  "normalize_model_name model_name =
     (if model_name = ''text-embedding-3-large'' then ''openai-3-large''
      else lower (translate ES_INDEX_TRANSLATOR model_name))"

text \<open>\<open>VectorStore.get_index_name\<close>; the first argument is \<open>self.index_name\<close>.\<close>

definition get_index_name :: "string \<Rightarrow> string \<Rightarrow> string" where
  "get_index_name index_name model_name =
     index_name @ ''_'' @ normalize_model_name model_name"

text \<open>\<open>VectorStore.get_index_name_highlights\<close>; the first argument is
  \<open>self.index_name_highlights\<close>.\<close>

definition get_index_name_highlights :: "string \<Rightarrow> string \<Rightarrow> string" where
  "get_index_name_highlights index_name_highlights model_name =
     index_name_highlights @ ''_'' @ normalize_model_name model_name"

text \<open>The normalisation in the words of the specification: every non-alphanumeric
  character folded to the separator, the result lower-cased.\<close>

definition spec_normalize_model_name :: "string \<Rightarrow> string" where
  "spec_normalize_model_name model_name =
     lower (map (\<lambda>c. if isalnum c then c else CHR ''-'') model_name)"


section \<open>Query rewriting (\<open>ragnarok/utils/query_rewrite.py\<close>, \<open>common/utils/prompts.py\<close>)\<close>

record message =
  role :: string
  content :: string

datatype ModelProvider = Cohere | JinaAI | OpenAI | Triton | vLLM

record GenerativeModelSettings =
  provider :: ModelProvider
  name :: string
  base_url :: "string option"

text \<open>The defaults of \<open>common/models/defaults.py\<close>.\<close>

definition LANG :: string where
  "LANG = ''cs-CZ''"

definition default_GenerativeModelSettings :: GenerativeModelSettings where
  "default_GenerativeModelSettings = \<lparr>provider = OpenAI, name = ''gpt-4o'', base_url = None\<rparr>"

definition LANG_CODE_TO_NAME :: "string \<rightharpoonup> string" where
  "LANG_CODE_TO_NAME = [''cs'' \<mapsto> ''Czech'', ''cs-CZ'' \<mapsto> ''Czech'',
     ''en'' \<mapsto> ''English'', ''en-US'' \<mapsto> ''English'']"

text \<open>\<open>PROMPT_REWRITE.format(language=...)\<close>\<close>

definition PROMPT_REWRITE :: "string \<Rightarrow> string" where
  "PROMPT_REWRITE language =
     ''You will receive a conversation history and the user's latest question.'' @ [CHR 0x0A] @
     ''Rewrite ONLY the latest question into a single standalone query that is fully self-contained, '' @
     ''resolving pronouns, ellipsis, and references using the conversation. '' @
     ''Output ONLY the rewritten query text, nothing else. '' @
     ''Write the query in '' @ language @ ''.''"

text \<open>\<open>build_prompt_rewrite\<close>: \<open>None\<close> stands for the \<open>KeyError\<close> of
  \<open>LANG_CODE_TO_NAME[df.LANG]\<close>; an empty language name is falsy, as in \<open>x or y\<close>.\<close>

definition build_prompt_rewrite :: "string \<Rightarrow> string option" where
  "build_prompt_rewrite lang =
     (case LANG_CODE_TO_NAME lang of
        Some n \<Rightarrow> if n \<noteq> [] then Some (PROMPT_REWRITE n)
                  else map_option PROMPT_REWRITE (LANG_CODE_TO_NAME LANG)
      | None \<Rightarrow> map_option PROMPT_REWRITE (LANG_CODE_TO_NAME LANG))"

definition build_messages :: "string \<Rightarrow> string \<Rightarrow> message list \<Rightarrow> message list" where
  "build_messages system_prompt query history =
     [\<lparr>role = ''system'', content = system_prompt\<rparr>] @ history @
     [\<lparr>role = ''user'', content = query\<rparr>]"

text \<open>
  The generation capability. \<open>LF.get_model\<close> is a parameter \<open>get_model\<close> that gives a
  model or raises (\<open>None\<close>); a model's \<open>chat_completion\<close> maps the messages and the
  temperature to the text or raises (\<open>None\<close>). Every call of \<open>chat_completion\<close> is
  appended to a log, which is threaded through \<open>rewrite_query\<close>.
\<close>

type_synonym chat_model = "message list \<Rightarrow> rat \<Rightarrow> string option"

record generation_call =
  call_settings :: GenerativeModelSettings
  call_messages :: "message list"
  call_temperature :: rat

text \<open>\<open>rewrite_query\<close>: the result and the log of the calls made to the generation
  capability. The \<open>try\<close> block catches every exception and returns the query.\<close>

definition rewrite_query ::
  "(ModelProvider \<Rightarrow> string \<Rightarrow> string option \<Rightarrow> chat_model option) \<Rightarrow>
   string \<Rightarrow> message list \<Rightarrow> string \<Rightarrow> GenerativeModelSettings option \<Rightarrow>
   generation_call list \<Rightarrow> string \<times> generation_call list" where
  "rewrite_query get_model query history_messages lang settings calls =
     (if history_messages = [] then (query, calls)
      else
        let settings = (case settings of Some s \<Rightarrow> s | None \<Rightarrow> default_GenerativeModelSettings)
        in case build_prompt_rewrite lang of
             None \<Rightarrow> (query, calls)
           | Some system_prompt \<Rightarrow>
               let messages = build_messages system_prompt query history_messages
               in case get_model (provider settings) (name settings) (base_url settings) of
                    None \<Rightarrow> (query, calls)
                  | Some model \<Rightarrow>
                      let calls = calls @ [\<lparr>call_settings = settings, call_messages = messages,
                                            call_temperature = 0\<rparr>]
                      in case model messages 0 of
                           None \<Rightarrow> (query, calls)
                         | Some rewritten_query \<Rightarrow> (rewritten_query, calls))"


section \<open>Reciprocal rank fusion (\<open>ragnarok/rag.py\<close>)\<close>

datatype py_error = KeyError | ZeroDivisionError | ValueError

text \<open>\<open>common.models.elastic.KBEntry\<close>; the type of \<open>source\<close> is left open.\<close>

record 'a KBEntry =
  entry_id :: string
  entry_index :: string
  score :: rat
  source :: 'a

text \<open>\<open>sorted(xs, key=key, reverse=True)\<close> and \<open>xs.sort(key=key, reverse=True)\<close>:
  descending in the key, and stable (elements with equal keys keep their order).\<close>

definition sorted_reverse :: "('a \<Rightarrow> rat) \<Rightarrow> 'a list \<Rightarrow> 'a list" where
  "sorted_reverse key xs = sort_key (\<lambda>x. - key x) xs"

text \<open>
  \<open>ranks = defaultdict(lambda: [None, None])\<close> is an association list in insertion
  order. \<open>ranks_assign k f\<close> is an assignment to a slot of \<open>ranks[k]\<close>: the entry
  of a new key is created at the end, with both slots \<open>None\<close>.
\<close>

type_synonym ranks = "(string \<times> nat option \<times> nat option) list"

fun ranks_assign ::
  "string \<Rightarrow> (nat option \<times> nat option \<Rightarrow> nat option \<times> nat option) \<Rightarrow> ranks \<Rightarrow> ranks" where
  "ranks_assign k f [] = [(k, f (None, None))]"
| "ranks_assign k f ((k', v) # r) =
     (if k' = k then (k', f v) # r else (k', v) # ranks_assign k f r)"

text \<open>\<open>for rank, result in enumerate(cosine_results): ranks[result.id][0] = rank + 1\<close>\<close>

definition assign_cosine :: "'a KBEntry list \<Rightarrow> ranks \<Rightarrow> ranks" where
  "assign_cosine cosine_results ranks =
     fold (\<lambda>(rank, result). ranks_assign (entry_id result) (\<lambda>(cr, br). (Some (rank + 1), br)))
       (enumerate 0 cosine_results) ranks"

text \<open>\<open>for rank, result in enumerate(bm25_results): ranks[result.id][1] = rank + 1\<close>\<close>

definition assign_bm25 :: "'a KBEntry list \<Rightarrow> ranks \<Rightarrow> ranks" where
  "assign_bm25 bm25_results ranks =
     fold (\<lambda>(rank, result). ranks_assign (entry_id result) (\<lambda>(cr, br). (cr, Some (rank + 1))))
       (enumerate 0 bm25_results) ranks"

text \<open>\<open>if rank is not None: score += 1 / (rank + c)\<close>\<close>

fun add_reciprocal :: "int \<Rightarrow> rat \<Rightarrow> nat option \<Rightarrow> py_error + rat" where
  "add_reciprocal c s None = Inr s"
| "add_reciprocal c s (Some rank) =
     (if int rank + c = 0 then Inl ZeroDivisionError
      else Inr (s + 1 / of_int (int rank + c)))"

fun rrf_score :: "int \<Rightarrow> nat option \<times> nat option \<Rightarrow> py_error + rat" where
  "rrf_score c (cosine_rank, bm25_rank) =
     (case add_reciprocal c 0 cosine_rank of
        Inl e \<Rightarrow> Inl e
      | Inr s \<Rightarrow> add_reciprocal c s bm25_rank)"

text \<open>The loop that fills \<open>rrf_scores\<close>, a dictionary in the order of \<open>ranks\<close>.\<close>

fun rrf_scores :: "int \<Rightarrow> ranks \<Rightarrow> py_error + (string \<times> rat) list" where
  "rrf_scores c [] = Inr []"
| "rrf_scores c ((doc_id, r) # rs) =
     (case rrf_score c r of
        Inl e \<Rightarrow> Inl e
      | Inr s \<Rightarrow> (case rrf_scores c rs of
                    Inl e \<Rightarrow> Inl e
                  | Inr ss \<Rightarrow> Inr ((doc_id, s) # ss)))"

text \<open>\<open>results = {r.id: r for r in results}\<close>: a later hit replaces an earlier one
  with the same ID.\<close>

definition results_by_id :: "'a KBEntry list \<Rightarrow> (string \<rightharpoonup> 'a KBEntry)" where
  "results_by_id results = fold (\<lambda>r m. m(entry_id r \<mapsto> r)) results Map.empty"

text \<open>
  The last loop: \<open>res = results[doc_id]; res.score = score; out.append(res)\<close>. The
  assignment mutates the hit object; every document ID, and so every object, is visited
  once, so the returned list holds the hits with the score field replaced.
\<close>

fun collect_out ::
  "(string \<rightharpoonup> 'a KBEntry) \<Rightarrow> (string \<times> rat) list \<Rightarrow> py_error + 'a KBEntry list" where
  "collect_out results [] = Inr []"
| "collect_out results ((doc_id, s) # rest) =
     (case results doc_id of
        None \<Rightarrow> Inl KeyError
      | Some res \<Rightarrow> (case collect_out results rest of
                      Inl e \<Rightarrow> Inl e
                    | Inr out \<Rightarrow> Inr (res\<lparr>score := s\<rparr> # out)))"

definition reciprocal_rank_fusion ::
  "'a KBEntry list \<Rightarrow> 'a KBEntry list \<Rightarrow> int \<Rightarrow> py_error + 'a KBEntry list" where
  "reciprocal_rank_fusion cosine_results bm25_results c =
     (let ranks = assign_bm25 bm25_results (assign_cosine cosine_results [])
      in case rrf_scores c ranks of
           Inl e \<Rightarrow> Inl e
         | Inr scores \<Rightarrow>
             let reranked_docs = sorted_reverse snd scores;
                 results = results_by_id (cosine_results @ bm25_results)
             in collect_out results reranked_docs)"

text \<open>
  The words of the specification. The rank of an ID in a list is its position counted
  from 1 (the last one, should a list name an ID twice); a list in which the ID does not
  appear contributes nothing; the insertion order is the order of first appearance.
\<close>

definition rank_in_list :: "string \<Rightarrow> 'a KBEntry list \<Rightarrow> nat option" where
  "rank_in_list doc_id results =
     (case filter (\<lambda>(rank, r). entry_id r = doc_id) (enumerate 1 results) of
        [] \<Rightarrow> None
      | ys \<Rightarrow> Some (fst (last ys)))"



fun insertion_order :: "'a list \<Rightarrow> 'a list" where
  "insertion_order [] = []"
| "insertion_order (x # xs) = x # removeAll x (insertion_order xs)"


section \<open>Selection of the L1 children (\<open>VectorStore.fetch_highlight_spans\<close>)\<close>

text \<open>A span as \<open>_score_l1_for_parent\<close> builds it; every field comes from a
  \<open>dict.get\<close> and may be \<open>None\<close>.\<close>

record highlight_span =
  span_kb_id :: "string option"
  span_source_file :: "string option"
  span_page :: "int option"
  span_start :: "int option"
  span_end :: "int option"
  span_text :: "string option"
  span_score :: "rat option"
  span_chunk_index :: "int option"
  span_chunk_level :: "string option"

text \<open>\<open>x["score"] or 0.0\<close>\<close>

definition score_or_zero :: "highlight_span \<Rightarrow> rat" where
  "score_or_zero x = (case span_score x of None \<Rightarrow> 0 | Some s \<Rightarrow> s)"

text \<open>The sort of \<open>l1_all\<close> and the computation of \<open>l1_top\<close> in the loop over the L0
  candidates; the floor is \<open>0.05\<close>.\<close>

definition l1_top :: "highlight_span list \<Rightarrow> highlight_span list" where
  "l1_top l1_all =
     (let l1_all = sorted_reverse score_or_zero l1_all
      in if l1_all \<noteq> [] then
           let half = max 1 (length l1_all div 2);
               top = take half l1_all
           in filter (\<lambda>x. score_or_zero x \<ge> 5 / 100) top
         else [])"


text \<open>A span that carries the given score and nothing else.\<close>

definition span_with_score :: "rat option \<Rightarrow> highlight_span" where
  "span_with_score s =
     \<lparr>span_kb_id = None, span_source_file = None, span_page = None, span_start = None,
      span_end = None, span_text = None, span_score = s, span_chunk_index = None,
      span_chunk_level = None\<rparr>"


section \<open>Dense and sparse search (\<open>VectorStore.knn_search\<close>, \<open>VectorStore.bm25_search\<close>)\<close>

text \<open>The filter clauses; a caller's clause (\<open>ftr_custom\<close>) is opaque.\<close>

datatype 'c es_filter =
    Term string string
  | BoolShould "'c es_filter list"
  | Custom 'c

text \<open>The two requests sent to \<open>es.search\<close>.\<close>

datatype ('c, 'v) es_request =
    KnnSearch string 'v int int "'c es_filter list" int
  | MatchSearch string string "'c es_filter list" int

text \<open>What the functions read in the response: \<open>res["hits"]["total"]["value"]\<close> and
  \<open>res["hits"]["hits"]\<close>.\<close>

record 'h es_response =
  total_value :: nat
  hits :: "'h list"

datatype search_error =
    DBRecordNotFound "string list option"
  | ValidationError
  | EmbeddingError
  | EngineError

record RetrievalSettings =
  emb_model_name :: string
  k_bm25 :: int
  k_emb :: int
  num_candidates :: int

definition default_RetrievalSettings :: RetrievalSettings where
  "default_RetrievalSettings =
     \<lparr>emb_model_name = ''text-embedding-3-large'', k_bm25 = 5, k_emb = 5, num_candidates = 100\<rparr>"

text \<open>The filter list \<open>ftr\<close>, built by the same statements in both functions.\<close>

definition build_ftr ::
  "string \<Rightarrow> string list option \<Rightarrow> 'c list option \<Rightarrow> 'c es_filter list" where
  "build_ftr project_id kb_ids ftr_custom =
     (let ftr = [Term ''metadata.project_id'' project_id];
          ftr = (case kb_ids of
                   None \<Rightarrow> ftr
                 | Some ids \<Rightarrow> if ids = [] then ftr
                     else ftr @ [BoolShould (map (\<lambda>i. Term ''metadata.kb_id'' i) ids)]);
          ftr = (case ftr_custom of
                   None \<Rightarrow> ftr
                 | Some cs \<Rightarrow> if cs = [] then ftr else ftr @ map Custom cs)
      in ftr)"

text \<open>\<open>[me.KBEntry.model_validate(x) for x in res["hits"]["hits"]]\<close>; \<open>validate\<close>
  gives \<open>None\<close> where pydantic raises.\<close>

fun validate_all :: "('h \<Rightarrow> 'e option) \<Rightarrow> 'h list \<Rightarrow> search_error + 'e list" where
  "validate_all validate [] = Inr []"
| "validate_all validate (x # xs) =
     (case validate x of
        None \<Rightarrow> Inl ValidationError
      | Some e \<Rightarrow> (case validate_all validate xs of
                    Inl err \<Rightarrow> Inl err
                  | Inr es \<Rightarrow> Inr (e # es)))"

definition knn_request ::
  "string \<Rightarrow> 'v \<Rightarrow> string \<Rightarrow> string list option \<Rightarrow> RetrievalSettings \<Rightarrow> 'c list option \<Rightarrow>
   ('c, 'v) es_request" where
  "knn_request index_name query_vector project_id kb_ids settings ftr_custom =
     KnnSearch (get_index_name index_name (emb_model_name settings)) query_vector
       (k_emb settings) (num_candidates settings)
       (build_ftr project_id kb_ids ftr_custom) (k_emb settings)"

definition bm25_request ::
  "string \<Rightarrow> string \<Rightarrow> string \<Rightarrow> string list option \<Rightarrow> RetrievalSettings \<Rightarrow> 'c list option \<Rightarrow>
   ('c, 'v) es_request" where
  "bm25_request index_name query project_id kb_ids settings ftr_custom =
     MatchSearch (get_index_name index_name (emb_model_name settings)) query
       (build_ftr project_id kb_ids ftr_custom) (k_bm25 settings)"

text \<open>The filter of a request.\<close>

fun request_filter :: "('c, 'v) es_request \<Rightarrow> 'c es_filter list" where
  "request_filter (KnnSearch i v k n ftr sz) = ftr"
| "request_filter (MatchSearch i q ftr sz) = ftr"

text \<open>
  \<open>knn_search\<close>. The parameters \<open>es\<close>, \<open>embed_query\<close> and \<open>validate\<close> are the search
  engine, the embedding model and pydantic's validation; \<open>index_name\<close> is
  \<open>self.index_name\<close>. An exception of the engine or of the embedding model is \<open>Inl\<close>.
\<close>

definition knn_search ::
  "(('c, 'v) es_request \<Rightarrow> search_error + 'h es_response) \<Rightarrow>
   (string \<Rightarrow> search_error + 'v) \<Rightarrow> ('h \<Rightarrow> 'e option) \<Rightarrow> string \<Rightarrow>
   string \<Rightarrow> string \<Rightarrow> string list option \<Rightarrow> RetrievalSettings option \<Rightarrow> 'c list option \<Rightarrow>
   search_error + 'e list" where
  "knn_search es embed_query validate index_name query project_id kb_ids settings ftr_custom =
     (let settings = (case settings of Some s \<Rightarrow> s | None \<Rightarrow> default_RetrievalSettings)
      in case embed_query query of
           Inl err \<Rightarrow> Inl err
         | Inr query_vector \<Rightarrow>
             (case es (knn_request index_name query_vector project_id kb_ids settings ftr_custom) of
                Inl err \<Rightarrow> Inl err
              | Inr res \<Rightarrow>
                  if total_value res = 0 then Inl (DBRecordNotFound kb_ids)
                  else validate_all validate (hits res)))"

definition bm25_search ::
  "(('c, 'v) es_request \<Rightarrow> search_error + 'h es_response) \<Rightarrow>
   ('h \<Rightarrow> 'e option) \<Rightarrow> string \<Rightarrow>
   string \<Rightarrow> string \<Rightarrow> string list option \<Rightarrow> RetrievalSettings option \<Rightarrow> 'c list option \<Rightarrow>
   search_error + 'e list" where
  "bm25_search es validate index_name query project_id kb_ids settings ftr_custom =
     (let settings = (case settings of Some s \<Rightarrow> s | None \<Rightarrow> default_RetrievalSettings)
      in case es (bm25_request index_name query project_id kb_ids settings ftr_custom) of
           Inl err \<Rightarrow> Inl err
         | Inr res \<Rightarrow> validate_all validate (hits res))"


section \<open>Hierarchical chunks (\<open>ragnarok/utils/highlight.py\<close>)\<close>

text \<open>
  The outcome of a call: \<open>None\<close> when the call does not return, \<open>Some (Inl e)\<close> when
  it raises \<open>e\<close>, \<open>Some (Inr v)\<close> when it returns \<open>v\<close>.
\<close>

type_synonym 'a outcome = "(py_error + 'a) option"

text \<open>\<open>text.find(sub, start)\<close>, with \<open>None\<close> for \<open>-1\<close>. \<open>find_in sub s k\<close> searches
  the suffix \<open>s\<close> that begins at position \<open>k\<close>.\<close>

fun find_in :: "string \<Rightarrow> string \<Rightarrow> nat \<Rightarrow> nat option" where
  "find_in sub [] k = (if sub = [] then Some k else None)"
| "find_in sub (c # s) k = (if prefix sub (c # s) then Some k else find_in sub s (Suc k))"

text \<open>An index of a slice or of \<open>find\<close>: a negative one counts from the end, and
  the result is clipped to the string.\<close>

definition slice_index :: "nat \<Rightarrow> int \<Rightarrow> nat" where
  "slice_index n i = (if i < 0 then nat (max 0 (int n + i)) else min n (nat i))"

definition find :: "string \<Rightarrow> string \<Rightarrow> int \<Rightarrow> nat option" where
  "find text sub start =
     (if start > int (length text) then None
      else let s = slice_index (length text) start in find_in sub (drop s text) s)"

text \<open>\<open>sub in text\<close>\<close>

definition contains :: "string \<Rightarrow> string \<Rightarrow> bool" where
  "contains text sub = (find text sub 0 \<noteq> None)"

text \<open>\<open>text[start:stop]\<close>\<close>

definition slice :: "string \<Rightarrow> int \<Rightarrow> int \<Rightarrow> string" where
  "slice text start stop =
     (let s = slice_index (length text) start;
          e = slice_index (length text) stop
      in take (e - s) (drop s text))"

text \<open>\<open>text.split(sep)\<close> for a separator that is not empty: the text is cut at the
  leftmost occurrences of the separator, one after the other.\<close>

function split :: "string \<Rightarrow> string \<Rightarrow> string list" where
  "split sep [] = [[]]"
| "split sep (c # s) =
     (if sep \<noteq> [] \<and> prefix sep (c # s) then [] # split sep (drop (length sep) (c # s))
      else (case split sep s of
              [] \<Rightarrow> [[c]]
            | p # ps \<Rightarrow> (c # p) # ps))"
  by pat_completeness auto
termination
  by (relation "measure (\<lambda>(sep, s). length s)") (auto simp: neq_Nil_conv)

text \<open>\<open>sep.join(parts)\<close>\<close>

fun join :: "string \<Rightarrow> string list \<Rightarrow> string" where
  "join sep [] = []"
| "join sep [p] = p"
| "join sep (p # q # ps) = p @ sep @ join sep (q # ps)"

text \<open>The strings \<open>full = part + (sep if i < len(parts) - 1 else "")\<close>, one for each
  part.\<close>

fun with_separator :: "string \<Rightarrow> string list \<Rightarrow> string list" where
  "with_separator sep [] = []"
| "with_separator sep [p] = [p]"
| "with_separator sep (p # q # ps) = (p @ sep) # with_separator sep (q # ps)"

text \<open>
  The \<open>while\<close> loop of \<open>split_text_simple\<close>, from the state \<open>start\<close>, \<open>chunks\<close>. The
  loop may run forever, in which case the value is \<open>None\<close>.
\<close>

partial_function (option) sliding_window ::
  "string \<Rightarrow> int \<Rightarrow> int \<Rightarrow> int \<Rightarrow> string list \<Rightarrow> string list option" where
  "sliding_window text chunk_size overlap start chunks =
     (if start < int (length text) then
        (let stop = min (start + chunk_size) (int (length text));
             chunk = strip (slice text start stop);
             chunks = (if chunk \<noteq> [] then chunks @ [chunk] else chunks);
             start = (if overlap > 0 then stop - overlap else stop)
         in if start \<ge> int (length text) then Some chunks
            else sliding_window text chunk_size overlap start chunks)
      else Some chunks)"

declare sliding_window.simps [code]

text \<open>
  The head of the loop \<open>for sep in separators\<close>: the first separator that is in the
  text and splits it into two parts or more (\<open>Inr (Some sep)\<close>), none (\<open>Inr None\<close>),
  or the \<open>ValueError\<close> of \<open>text.split("")\<close>.
\<close>

fun first_separator :: "string \<Rightarrow> string list \<Rightarrow> py_error + string option" where
  "first_separator text [] = Inr None"
| "first_separator text (sep # separators) =
     (if \<not> contains text sep then first_separator text separators
      else if sep = [] then Inl ValueError
      else if length (split sep text) < 2 then first_separator text separators
      else Inr (Some sep))"

text \<open>
  The loop \<open>for i, part in enumerate(parts)\<close> over the strings \<open>full\<close>, from the state
  \<open>out\<close>, \<open>cur\<close>, and the statements after it; \<open>recurse\<close> is the recursive call
  \<open>split_text_simple(full, chunk_size, overlap, separators[1:])\<close>.
\<close>

fun accumulate ::
  "(string \<Rightarrow> string list outcome) \<Rightarrow> int \<Rightarrow> string list \<Rightarrow> string \<Rightarrow> string list \<Rightarrow>
   string list outcome" where
  "accumulate recurse chunk_size out cur [] =
     Some (Inr (if strip cur \<noteq> [] then out @ [strip cur] else out))"
| "accumulate recurse chunk_size out cur (full # fulls) =
     (if int (length (cur @ full)) \<le> chunk_size
      then accumulate recurse chunk_size out (cur @ full) fulls
      else
        let out = (if strip cur \<noteq> [] then out @ [strip cur] else out)
        in if int (length full) > chunk_size then
             (case recurse full of
                None \<Rightarrow> None
              | Some (Inl e) \<Rightarrow> Some (Inl e)
              | Some (Inr sub) \<Rightarrow> accumulate recurse chunk_size (out @ sub) [] fulls)
           else accumulate recurse chunk_size out full fulls)"

function split_text_simple ::
  "string \<Rightarrow> int \<Rightarrow> int \<Rightarrow> string list \<Rightarrow> string list outcome" where
  "split_text_simple text chunk_size overlap separators =
     (if int (length text) \<le> chunk_size
      then Some (Inr (if strip text \<noteq> [] then [text] else []))
      else
        (case first_separator text separators of
           Inl e \<Rightarrow> Some (Inl e)
         | Inr (Some sep) \<Rightarrow>
             accumulate (\<lambda>full. split_text_simple full chunk_size overlap (tl separators))
               chunk_size [] [] (with_separator sep (split sep text))
         | Inr None \<Rightarrow>
             map_option Inr (sliding_window text chunk_size overlap 0 [])))"
  by pat_completeness auto
termination
  apply (relation "measure (\<lambda>(text, chunk_size, overlap, separators). length separators)")
   apply simp
  subgoal for t cs ov seps b x2 x
    by (cases seps) auto
  done

declare split_text_simple.simps [simp del]


text \<open>A chunk as \<open>create_chunks_from_text\<close> builds it.\<close>

record text_chunk =
  piece_text :: string
  piece_index :: nat
  piece_start :: int
  piece_end :: int

text \<open>The loop \<open>for i, t in enumerate(texts)\<close> of \<open>create_chunks_from_text\<close>, from
  the state \<open>current_pos\<close> and the index \<open>i\<close>.\<close>

fun locate_chunks :: "string \<Rightarrow> int \<Rightarrow> int \<Rightarrow> nat \<Rightarrow> string list \<Rightarrow> text_chunk list" where
  "locate_chunks text overlap current_pos i [] = []"
| "locate_chunks text overlap current_pos i (t # texts) =
     (let tc = strip t
      in if tc = [] then locate_chunks text overlap current_pos (Suc i) texts
         else
           let (start_pos, end_pos) =
                 (case find text tc current_pos of
                    None \<Rightarrow> (current_pos, min (current_pos + int (length tc)) (int (length text)))
                  | Some p \<Rightarrow> (int p, int p + int (length tc)));
               current_pos = max 0 (end_pos - overlap)
           in \<lparr>piece_text = tc, piece_index = i, piece_start = start_pos, piece_end = end_pos\<rparr>
              # locate_chunks text overlap current_pos (Suc i) texts)"

definition create_chunks_from_text ::
  "string \<Rightarrow> int \<Rightarrow> int \<Rightarrow> string list \<Rightarrow> text_chunk list outcome" where
  "create_chunks_from_text text chunk_size overlap separators =
     (if strip text = [] then Some (Inr [])
      else
        (case split_text_simple text chunk_size overlap separators of
           None \<Rightarrow> None
         | Some (Inl e) \<Rightarrow> Some (Inl e)
         | Some (Inr texts) \<Rightarrow> Some (Inr (locate_chunks text overlap 0 0 texts))))"

text \<open>\<open>while result.startswith("\n\n\n"): result = result[1:]\<close>\<close>

fun drop_leading_newlines :: "string \<Rightarrow> string" where
  "drop_leading_newlines (a # b # c # s) =
     (if a = CHR 0x0A \<and> b = CHR 0x0A \<and> c = CHR 0x0A then drop_leading_newlines (b # c # s)
      else a # b # c # s)"
| "drop_leading_newlines s = s"

definition preprocess_text_for_chunking :: "string \<Rightarrow> string" where
  "preprocess_text_for_chunking text =
     (let lines = split [CHR 0x0A] text;
          filtered = filter (\<lambda>ln. \<not> prefix ''SOURCE FILE:'' (strip ln)) lines;
          result = join [CHR 0x0A] filtered
      in strip (drop_leading_newlines result))"

text \<open>\<open>str(n)\<close> for an integer, as the f-string of \<open>make_chunk_id\<close> formats it.\<close>

fun digits :: "nat \<Rightarrow> string" where
  "digits n = (if n < 10 then [char_of (48 + n)] else digits (n div 10) @ [char_of (48 + n mod 10)])"

declare digits.simps [simp del]

definition str_int :: "int \<Rightarrow> string" where
  "str_int i = (if i < 0 then CHR ''-'' # digits (nat (- i)) else digits (nat i))"

definition make_chunk_id :: "string \<Rightarrow> string \<Rightarrow> int \<Rightarrow> int \<Rightarrow> string" where
  "make_chunk_id source_document_id level start stop =
     source_document_id @ ''_'' @ level @ ''_'' @ str_int start @ ''_'' @ str_int stop"

text \<open>A page document: \<open>doc["id"]\<close>, \<open>doc["text"]\<close> and \<open>doc["metadata"]\<close>, whose
  type is left open.\<close>

record 'm document =
  doc_id :: string
  doc_text :: string
  doc_metadata :: 'm

text \<open>
  A chunk of the result. The keys that \<open>create_hierarchical_chunks\<close> sets in
  \<open>metadata\<close> are fields; \<open>inherited\<close> is \<open>**doc["metadata"]\<close>. The level is the
  string \<open>L0\<close> or \<open>L1\<close>; \<open>parent_chunk_id\<close> is set on an L1 chunk only.
\<close>

record 'm hierarchical_chunk =
  chunk_text :: string
  inherited :: 'm
  source_document_id :: string
  parent_chunk_id :: "string option"
  chunk_level :: string
  chunk_index :: nat
  char_start :: int
  char_end :: int
  chunk_id :: string

text \<open>Running \<open>f\<close> on the elements of a list in order and appending what it returns
  to \<open>out\<close>; the first call that raises or does not return ends the run.\<close>

fun extend_each :: "('a \<Rightarrow> 'b list outcome) \<Rightarrow> 'a list \<Rightarrow> 'b list outcome" where
  "extend_each f [] = Some (Inr [])"
| "extend_each f (x # xs) =
     (case f x of
        None \<Rightarrow> None
      | Some (Inl e) \<Rightarrow> Some (Inl e)
      | Some (Inr ys) \<Rightarrow>
          (case extend_each f xs of
             None \<Rightarrow> None
           | Some (Inl e) \<Rightarrow> Some (Inl e)
           | Some (Inr zs) \<Rightarrow> Some (Inr (ys @ zs))))"

text \<open>The body of the loop \<open>for l1_idx, l1 in enumerate(l1s)\<close>.\<close>

definition l1_chunk ::
  "'m document \<Rightarrow> text_chunk \<Rightarrow> string \<Rightarrow> nat \<times> text_chunk \<Rightarrow> 'm hierarchical_chunk" where
  "l1_chunk doc l0 l0_id = (\<lambda>(l1_idx, l1).
     let abs_start = piece_start l0 + piece_start l1;
         abs_end = piece_start l0 + piece_end l1;
         l1_id = make_chunk_id (doc_id doc) ''L1'' abs_start abs_end
     in \<lparr>chunk_text = piece_text l1, inherited = doc_metadata doc,
         source_document_id = doc_id doc, parent_chunk_id = Some l0_id,
         chunk_level = ''L1'', chunk_index = l1_idx,
         char_start = abs_start, char_end = abs_end, chunk_id = l1_id\<rparr>)"

text \<open>The body of the loop \<open>for l0_idx, l0 in enumerate(l0s)\<close>: the L0 chunk, then its
  L1 chunks. The index of the L1 chunk that stands in when the split gives none is not
  read.\<close>

definition l0_with_l1s ::
  "'m document \<Rightarrow> int \<Rightarrow> int \<Rightarrow> string list \<Rightarrow> nat \<times> text_chunk \<Rightarrow>
   'm hierarchical_chunk list outcome" where
  "l0_with_l1s doc l1_size l1_overlap separators = (\<lambda>(l0_idx, l0).
     let l0_id = make_chunk_id (doc_id doc) ''L0'' (piece_start l0) (piece_end l0);
         l0_chunk = \<lparr>chunk_text = piece_text l0, inherited = doc_metadata doc,
           source_document_id = doc_id doc, parent_chunk_id = None,
           chunk_level = ''L0'', chunk_index = l0_idx,
           char_start = piece_start l0, char_end = piece_end l0, chunk_id = l0_id\<rparr>
     in case create_chunks_from_text (piece_text l0) l1_size l1_overlap separators of
          None \<Rightarrow> None
        | Some (Inl e) \<Rightarrow> Some (Inl e)
        | Some (Inr l1s) \<Rightarrow>
            let l1s = (if l1s \<noteq> [] then l1s
                       else [\<lparr>piece_text = piece_text l0, piece_index = 0, piece_start = 0,
                               piece_end = int (length (piece_text l0))\<rparr>])
            in Some (Inr (l0_chunk # map (l1_chunk doc l0 l0_id) (enumerate 0 l1s))))"

text \<open>The body of the loop \<open>for doc in documents\<close>.\<close>

definition chunks_of_document ::
  "int \<Rightarrow> int \<Rightarrow> int \<Rightarrow> int \<Rightarrow> string list \<Rightarrow> 'm document \<Rightarrow>
   'm hierarchical_chunk list outcome" where
  "chunks_of_document l0_size l0_overlap l1_size l1_overlap separators doc =
     (let text = preprocess_text_for_chunking (doc_text doc)
      in case create_chunks_from_text text l0_size l0_overlap separators of
           None \<Rightarrow> None
         | Some (Inl e) \<Rightarrow> Some (Inl e)
         | Some (Inr l0s) \<Rightarrow>
             extend_each (l0_with_l1s doc l1_size l1_overlap separators) (enumerate 0 l0s))"

definition create_hierarchical_chunks ::
  "'m document list \<Rightarrow> int \<Rightarrow> int \<Rightarrow> int \<Rightarrow> int \<Rightarrow> string list \<Rightarrow>
   'm hierarchical_chunk list outcome" where
  "create_hierarchical_chunks documents l0_size l0_overlap l1_size l1_overlap separators =
     extend_each (chunks_of_document l0_size l0_overlap l1_size l1_overlap separators) documents"

section \<open>Auxiliary notions of the proofs\<close>


text \<open>The two slots of a key in \<open>ranks\<close>, as the \<open>defaultdict\<close> gives them.\<close>

definition slots :: "ranks \<Rightarrow> string \<Rightarrow> nat option \<times> nat option" where
  "slots r d = (case map_of r d of None \<Rightarrow> (None, None) | Some v \<Rightarrow> v)"

text \<open>\<open>rank_in_list\<close> with the count starting at \<open>n\<close>.\<close>

definition last_rank :: "nat \<Rightarrow> string \<Rightarrow> 'a KBEntry list \<Rightarrow> nat option" where
  "last_rank n d results =
     (case filter (\<lambda>(rank, r). entry_id r = d) (enumerate n results) of
        [] \<Rightarrow> None
      | ys \<Rightarrow> Some (fst (last ys)))"


text \<open>The statement of C10, as a predicate.\<close>

definition every_L0_has_child :: "'m hierarchical_chunk list \<Rightarrow> bool" where
  "every_L0_has_child out =
     (\<forall>i < length out. chunk_level (out ! i) = ''L0'' \<longrightarrow>
        Suc i < length out \<and> chunk_level (out ! Suc i) = ''L1''
        \<and> parent_chunk_id (out ! Suc i) = Some (chunk_id (out ! i)))"

text \<open>A chunk without the metadata it inherits from its document.\<close>

definition without_metadata :: "'m hierarchical_chunk \<Rightarrow> unit hierarchical_chunk" where
  "without_metadata c =
     \<lparr>chunk_text = chunk_text c, inherited = (),
      source_document_id = source_document_id c, parent_chunk_id = parent_chunk_id c,
      chunk_level = chunk_level c, chunk_index = chunk_index c,
      char_start = char_start c, char_end = char_end c, chunk_id = chunk_id c\<rparr>"

text \<open>Applying a function to the value a call returns.\<close>

definition map_outcome :: "('a \<Rightarrow> 'b) \<Rightarrow> 'a outcome \<Rightarrow> 'b outcome" where
  "map_outcome g r = map_option (map_sum id g) r"







section \<open>Theorems\<close>

subsection \<open>Index names\<close>

lemma normalize_model_name_other:
  "model_name \<noteq> ''text-embedding-3-large'' \<Longrightarrow>
     normalize_model_name model_name =
       map (\<lambda>c. lower_char (if c \<in> set ES_INDEX_REPLACE_CHARS then CHR ''-'' else c)) model_name"
  by (simp add: normalize_model_name_def lower_def translate_def ES_INDEX_TRANSLATOR_def
      fun_eq_iff)

text \<open>
  C9, as stated, fails: the model name \<open>text-embedding-3-large\<close> (the default embedding
  model) is mapped to \<open>openai-3-large\<close> and not to its normalisation, and a
  non-alphanumeric character outside the replacement table, such as \<open>@\<close>, is kept.
\<close>

theorem C9_counterexample:
  "get_index_name ''rag'' ''text-embedding-3-large'' = ''rag_openai-3-large''
   \<and> get_index_name ''rag'' ''text-embedding-3-large''
       \<noteq> ''rag'' @ ''_'' @ spec_normalize_model_name ''text-embedding-3-large''
   \<and> get_index_name ''rag'' ''BGE@M3'' = ''rag_bge@m3''
   \<and> get_index_name ''rag'' ''BGE@M3'' \<noteq> ''rag'' @ ''_'' @ spec_normalize_model_name ''BGE@M3''
   \<and> get_index_name_highlights ''hl'' ''BGE@M3''
       \<noteq> ''hl'' @ ''_'' @ spec_normalize_model_name ''BGE@M3''"
  by (simp add: get_index_name_def get_index_name_highlights_def normalize_model_name_def
      spec_normalize_model_name_def lower_def lower_char_def translate_def
      ES_INDEX_TRANSLATOR_def ES_INDEX_REPLACE_CHARS_def isalnum_def Let_def
      char_of_def bit_simps)

text \<open>
  C9, amended: \<open>get_index_name\<close> returns the base name, an underscore and the normalised
  model name, and \<open>get_index_name_highlights\<close> the highlights base name, an underscore and
  the same normalised name. The normalised name is \<open>openai-3-large\<close> for the model name
  \<open>text-embedding-3-large\<close>; for every other model name it has the length of the model
  name, and its character at each position is the lower-cased hyphen where the model
  name has one of the characters of \<open>ES_INDEX_REPLACE_CHARS\<close>, and the lower-cased
  character of the model name elsewhere (so that other non-alphanumeric characters stay).
\<close>

theorem C9_index_names:
  "get_index_name base model_name = base @ ''_'' @ normalize_model_name model_name
   \<and> get_index_name_highlights base_hl model_name
       = base_hl @ ''_'' @ normalize_model_name model_name
   \<and> normalize_model_name ''text-embedding-3-large'' = ''openai-3-large''
   \<and> (model_name \<noteq> ''text-embedding-3-large'' \<longrightarrow>
        length (normalize_model_name model_name) = length model_name
        \<and> (\<forall>i < length model_name.
              normalize_model_name model_name ! i =
                (if model_name ! i \<in> set ES_INDEX_REPLACE_CHARS then CHR ''-''
                 else lower_char (model_name ! i))))"
proof -
  have hyphen: "lower_char (CHR ''-'') = CHR ''-''"
    by (simp add: lower_char_def)
  have special: "normalize_model_name ''text-embedding-3-large'' = ''openai-3-large''"
    by (simp add: normalize_model_name_def)
  have other: "length (normalize_model_name model_name) = length model_name
        \<and> (\<forall>i < length model_name.
              normalize_model_name model_name ! i =
                (if model_name ! i \<in> set ES_INDEX_REPLACE_CHARS then CHR ''-''
                 else lower_char (model_name ! i)))"
    if "model_name \<noteq> ''text-embedding-3-large''"
    using that hyphen by (simp add: normalize_model_name_other)
  show ?thesis
    using special other by (simp add: get_index_name_def get_index_name_highlights_def)
qed

theorem C9_index_names_witness:
  "''Qwen/Qwen3_Embed.8B'' \<noteq> ''text-embedding-3-large''
   \<and> get_index_name ''rag'' ''Qwen/Qwen3_Embed.8B'' = ''rag_qwen-qwen3-embed-8b''
   \<and> length (normalize_model_name ''Qwen/Qwen3_Embed.8B'') = 19
   \<and> normalize_model_name ''Qwen/Qwen3_Embed.8B'' ! 4 = CHR ''-''"
proof -
  have ne: "''Qwen/Qwen3_Embed.8B'' \<noteq> ''text-embedding-3-large''"
    by simp
  have "length (normalize_model_name ''Qwen/Qwen3_Embed.8B'') = length ''Qwen/Qwen3_Embed.8B''
     \<and> normalize_model_name ''Qwen/Qwen3_Embed.8B'' ! 4 =
         (if ''Qwen/Qwen3_Embed.8B'' ! 4 \<in> set ES_INDEX_REPLACE_CHARS then CHR ''-''
          else lower_char (''Qwen/Qwen3_Embed.8B'' ! 4))"
    using C9_index_names [of "''rag''" "''Qwen/Qwen3_Embed.8B''" "''hl''"] ne by simp
  moreover have "get_index_name ''rag'' ''Qwen/Qwen3_Embed.8B'' = ''rag_qwen-qwen3-embed-8b''"
    by (simp add: get_index_name_def normalize_model_name_def lower_def lower_char_def
        translate_def ES_INDEX_TRANSLATOR_def ES_INDEX_REPLACE_CHARS_def Let_def
        char_of_def bit_simps)
  ultimately show ?thesis
    using ne by (simp add: ES_INDEX_REPLACE_CHARS_def)
qed

subsection \<open>Query rewriting\<close>

text \<open>
  C7: for every query string, \<open>rewrite_query\<close> called with an empty
  \<open>history_messages\<close> list returns the query unchanged and makes no call to the
  generation capability: the log of calls is the one it was given, whatever the
  capability, the language and the settings are.
\<close>

theorem C7_rewrite_no_history:
  "rewrite_query get_model query [] lang settings calls = (query, calls)"
  by (simp add: rewrite_query_def)

subsection \<open>Sorting in descending order\<close>

lemma sorted_reverse_descending:
  "sorted_wrt (\<lambda>a b. key a \<ge> key b) (sorted_reverse key xs)"
  using sorted_sort_key [of "\<lambda>x. - key x" xs]
  by (simp add: sorted_reverse_def sorted_map)

lemma mset_sorted_reverse: "mset (sorted_reverse key xs) = mset xs"
  by (simp add: sorted_reverse_def)


subsection \<open>Reciprocal rank fusion on the example of the specification\<close>

text \<open>
  C4, as stated, fails: \<open>D\<close> is third in the BM25 list, so its fused score is
  \<open>1/63\<close> and not \<open>1/62\<close>; it is tied with \<open>C\<close>, and the stable sort leaves \<open>C\<close>,
  inserted first, ahead of it.
\<close>

theorem C4_counterexample:
  "map (\<lambda>e. (entry_id e, score e))
     (projr (reciprocal_rank_fusion
        [\<lparr>entry_id = ''A'', entry_index = ''i'', score = 3, source = ()\<rparr>,
         \<lparr>entry_id = ''B'', entry_index = ''i'', score = 2, source = ()\<rparr>,
         \<lparr>entry_id = ''C'', entry_index = ''i'', score = 1, source = ()\<rparr>]
        [\<lparr>entry_id = ''B'', entry_index = ''i'', score = 9, source = ()\<rparr>,
         \<lparr>entry_id = ''A'', entry_index = ''i'', score = 8, source = ()\<rparr>,
         \<lparr>entry_id = ''D'', entry_index = ''i'', score = 7, source = ()\<rparr>] 60))
   \<noteq> [(''A'', 1/61 + 1/62), (''B'', 1/62 + 1/61), (''D'', 1/62), (''C'', 1/63)]
   \<and> map (\<lambda>e. (entry_id e, score e))
     (projr (reciprocal_rank_fusion
        [\<lparr>entry_id = ''A'', entry_index = ''i'', score = 3, source = ()\<rparr>,
         \<lparr>entry_id = ''B'', entry_index = ''i'', score = 2, source = ()\<rparr>,
         \<lparr>entry_id = ''C'', entry_index = ''i'', score = 1, source = ()\<rparr>]
        [\<lparr>entry_id = ''B'', entry_index = ''i'', score = 9, source = ()\<rparr>,
         \<lparr>entry_id = ''A'', entry_index = ''i'', score = 8, source = ()\<rparr>,
         \<lparr>entry_id = ''D'', entry_index = ''i'', score = 7, source = ()\<rparr>] 60))
   = [(''A'', 1/61 + 1/62), (''B'', 1/61 + 1/62), (''C'', 1/63), (''D'', 1/63)]"
  by (simp add: reciprocal_rank_fusion_def assign_bm25_def assign_cosine_def enumerate_eq_zip
      sorted_reverse_def results_by_id_def Let_def upt_rec)

text \<open>
  C4, amended: for the cosine-ranked IDs \<open>[A, B, C]\<close> and the BM25-ranked IDs
  \<open>[B, A, D]\<close> with \<open>c = 60\<close>, whatever the hits carry besides their IDs,
  \<open>reciprocal_rank_fusion\<close> returns the four hits in the order \<open>A, B, C, D\<close> with
  \<open>score(A) = 1/61 + 1/62\<close>, \<open>score(B) = 1/62 + 1/61\<close> (tied with \<open>A\<close>),
  \<open>score(C) = 1/63\<close> and \<open>score(D) = 1/63\<close> (tied with \<open>C\<close>): \<open>A\<close> and \<open>B\<close> are
  above both, and \<open>C\<close> precedes \<open>D\<close>. For an ID in both lists the hit returned is the
  one of the BM25 list.
\<close>

theorem C4_rrf_example:
  "reciprocal_rank_fusion
     [\<lparr>entry_id = ''A'', entry_index = i1, score = s1, source = x1\<rparr>,
      \<lparr>entry_id = ''B'', entry_index = i2, score = s2, source = x2\<rparr>,
      \<lparr>entry_id = ''C'', entry_index = i3, score = s3, source = x3\<rparr>]
     [\<lparr>entry_id = ''B'', entry_index = i4, score = s4, source = x4\<rparr>,
      \<lparr>entry_id = ''A'', entry_index = i5, score = s5, source = x5\<rparr>,
      \<lparr>entry_id = ''D'', entry_index = i6, score = s6, source = x6\<rparr>] 60
   = Inr [\<lparr>entry_id = ''A'', entry_index = i5, score = 1/61 + 1/62, source = x5\<rparr>,
          \<lparr>entry_id = ''B'', entry_index = i4, score = 1/62 + 1/61, source = x4\<rparr>,
          \<lparr>entry_id = ''C'', entry_index = i3, score = 1/63, source = x3\<rparr>,
          \<lparr>entry_id = ''D'', entry_index = i6, score = 1/63, source = x6\<rparr>]
   \<and> (1/61 + 1/62 :: rat) = 1/62 + 1/61
   \<and> (1/63 :: rat) < 1/61 + 1/62"
  by (simp add: reciprocal_rank_fusion_def assign_bm25_def assign_cosine_def enumerate_eq_zip
      sorted_reverse_def results_by_id_def Let_def upt_rec)

subsection \<open>Selection of the L1 children\<close>

lemma filter_take_nth:
  "filter P (take h s) = map ((!) s) (filter (\<lambda>i. i < h \<and> P (s ! i)) [0..<length s])"
proof (induction s rule: rev_induct)
  case Nil
  then show ?case by simp
next
  case (snoc x xs)
  have m: "map ((!) (xs @ [x])) (filter Q [0..<length xs])
      = map ((!) xs) (filter Q [0..<length xs])" for Q
    by (rule map_cong) (auto simp: nth_append)
  have f: "filter (\<lambda>i. i < h \<and> P ((xs @ [x]) ! i)) [0..<length xs]
      = filter (\<lambda>i. i < h \<and> P (xs ! i)) [0..<length xs]"
    by (rule filter_cong) (auto simp: nth_append)
  have t: "take n [x] = (if n = 0 then [] else [x])" for n
    by (cases n) auto
  show ?case
    using snoc by (auto simp: m f t)
qed

text \<open>
  C5: with \<open>s\<close> the list of L1 children sorted by descending score (a permutation of
  the children), the kept list \<open>l1_top\<close> is \<open>s\<close> restricted to the positions \<open>i\<close> that
  are both in the top half, \<open>i < max 1 (length s div 2)\<close>, and at or above the floor,
  \<open>0.05 \<le> score\<close>. The scores \<open>[0.9, 0.8, 0.3, 0.02]\<close> keep \<open>[0.9, 0.8]\<close>, and
  \<open>[0.9, 0.02]\<close> keeps \<open>[0.9]\<close>.
\<close>

theorem C5_l1_top:
  "l1_top l1_all =
     map ((!) (sorted_reverse score_or_zero l1_all))
       [i \<leftarrow> [0..<length l1_all].
          i < max 1 (length l1_all div 2)
          \<and> 5 / 100 \<le> score_or_zero (sorted_reverse score_or_zero l1_all ! i)]
   \<and> sorted_wrt (\<lambda>a b. score_or_zero a \<ge> score_or_zero b) (sorted_reverse score_or_zero l1_all)
   \<and> mset (sorted_reverse score_or_zero l1_all) = mset l1_all
   \<and> map span_score (l1_top (map span_with_score
         [Some (9/10), Some (8/10), Some (3/10), Some (2/100)]))
       = [Some (9/10), Some (8/10)]
   \<and> map span_score (l1_top (map span_with_score [Some (9/10), Some (2/100)]))
       = [Some (9/10)]"
proof -
  have len: "length (sorted_reverse score_or_zero l1_all) = length l1_all"
    by (simp add: sorted_reverse_def)
  have "l1_top l1_all =
     map ((!) (sorted_reverse score_or_zero l1_all))
       [i \<leftarrow> [0..<length l1_all].
          i < max 1 (length l1_all div 2)
          \<and> 5 / 100 \<le> score_or_zero (sorted_reverse score_or_zero l1_all ! i)]"
    using len by (auto simp add: l1_top_def Let_def filter_take_nth)
  moreover have "map span_score (l1_top (map span_with_score
         [Some (9/10), Some (8/10), Some (3/10), Some (2/100)]))
       = [Some (9/10), Some (8/10)]"
    by (simp add: l1_top_def Let_def sorted_reverse_def span_with_score_def score_or_zero_def)
  moreover have "map span_score (l1_top (map span_with_score [Some (9/10), Some (2/100)]))
       = [Some (9/10)]"
    by (simp add: l1_top_def Let_def sorted_reverse_def span_with_score_def score_or_zero_def)
  ultimately show ?thesis
    using sorted_reverse_descending [of score_or_zero l1_all]
      mset_sorted_reverse [of score_or_zero l1_all]
    by simp
qed

subsection \<open>Dense and sparse search with no hit\<close>

lemma request_filters_equal:
  "request_filter (knn_request index_name qv project_id kb_ids s ftr_custom)
     = request_filter (bm25_request index_name query project_id kb_ids s ftr_custom)"
  by (simp add: knn_request_def bm25_request_def)

text \<open>
  C8: the two searches send the same filter list. When the engine answers the dense
  request with a hit total of zero, \<open>knn_search\<close> raises \<open>DBRecordNotFound\<close>; when it
  answers the sparse request with an empty hit list, \<open>bm25_search\<close> returns the empty
  list and raises nothing.
\<close>

theorem C8_zero_hits:
  assumes "s = (case settings of Some s' \<Rightarrow> s' | None \<Rightarrow> default_RetrievalSettings)"
    and "embed_query query = Inr qv"
    and "es (knn_request index_name qv project_id kb_ids s ftr_custom) = Inr res_knn"
    and "es (bm25_request index_name query project_id kb_ids s ftr_custom) = Inr res_bm25"
    and "total_value res_knn = 0"
    and "hits res_bm25 = []"
  shows "request_filter (knn_request index_name qv project_id kb_ids s ftr_custom)
           = request_filter (bm25_request index_name query project_id kb_ids s ftr_custom)
     \<and> knn_search es embed_query validate index_name query project_id kb_ids settings ftr_custom
           = Inl (DBRecordNotFound kb_ids)
     \<and> bm25_search es validate index_name query project_id kb_ids settings ftr_custom
           = Inr []"
  using assms
  by (simp add: knn_search_def bm25_search_def Let_def knn_request_def bm25_request_def)

theorem C8_zero_hits_witness:
  "knn_search (\<lambda>r. Inr \<lparr>total_value = 0, hits = []\<rparr>) (\<lambda>q. Inr [1 / 2, 1 / 3 :: rat])
       (\<lambda>h :: string. Some h) ''rag'' ''invoice total'' ''p1'' (Some [''kb1'']) None
       (None :: unit list option)
     = Inl (DBRecordNotFound (Some [''kb1'']))
   \<and> bm25_search (\<lambda>r :: (unit, rat list) es_request. Inr \<lparr>total_value = 0, hits = []\<rparr>)
       (\<lambda>h :: string. Some h) ''rag'' ''invoice total'' ''p1'' (Some [''kb1'']) None None
     = Inr []"
  using C8_zero_hits [of default_RetrievalSettings None "\<lambda>q. Inr [1 / 2, 1 / 3 :: rat]"
      "''invoice total''" "[1 / 2, 1 / 3]"
      "\<lambda>r :: (unit, rat list) es_request. Inr \<lparr>total_value = 0, hits = [] :: string list\<rparr>"
      "''rag''" "''p1''" "Some [''kb1'']" "None :: unit list option"
      "\<lparr>total_value = 0, hits = []\<rparr>" "\<lparr>total_value = 0, hits = []\<rparr>" "\<lambda>h :: string. Some h",
      simplified]
  by blast

subsection \<open>Reciprocal rank fusion in general\<close>



lemma set_insertion_order [simp]: "set (insertion_order xs) = set xs"
  by (induction xs) auto





lemma last_rank_alt:
  "last_rank n d xs =
     (let ys = filter (\<lambda>(rank, r). entry_id r = d) (enumerate n xs)
      in if ys = [] then None else Some (fst (last ys)))"
  by (simp add: last_rank_def Let_def split: list.splits)

lemma last_rank_Nil [simp]: "last_rank n d [] = None"
  by (simp add: last_rank_def)

lemma slots_Nil [simp]: "slots [] d = (None, None)"
  by (simp add: slots_def)

lemma last_rank_snoc [simp]:
  "last_rank n d (xs @ [x]) = (if entry_id x = d then Some (n + length xs) else last_rank n d xs)"
  by (simp add: last_rank_alt enumerate_append_eq Let_def)

lemma rank_in_list_last_rank: "rank_in_list d xs = last_rank 1 d xs"
  by (simp add: rank_in_list_def last_rank_def)
















lemma rank_in_list_position:
  "distinct (map entry_id xs) \<Longrightarrow> i < length xs \<Longrightarrow>
     rank_in_list (entry_id (xs ! i)) xs = Some (i + 1)"
proof (induction xs arbitrary: i rule: rev_induct)
  case Nil
  then show ?case by simp
next
  case (snoc x xs)
  show ?case
  proof (cases "i < length xs")
    case True
    then have m: "entry_id (xs ! i) \<in> entry_id ` set xs"
      by (intro imageI nth_mem)
    have n: "entry_id x \<notin> entry_id ` set xs"
      using snoc.prems by simp
    have "entry_id (xs ! i) \<noteq> entry_id x"
      using m n by metis
    then show ?thesis
      using True snoc by (simp add: rank_in_list_last_rank nth_append)
  next
    case False
    then have "i = length xs"
      using snoc.prems by simp
    then show ?thesis
      by (simp add: rank_in_list_last_rank)
  qed
qed

lemma rank_in_list_absent:
  "d \<notin> entry_id ` set xs \<Longrightarrow> rank_in_list d xs = None"
  by (induction xs rule: rev_induct) (auto simp: rank_in_list_last_rank)




subsection \<open>The sliding window\<close>

lemma sliding_window_returns:
  assumes "sliding_window text chunk_size overlap start chunks = Some y"
  shows "\<not> (start < int (length text) \<and> (0 < overlap \<or> chunk_size \<le> 0))"
proof (rule sliding_window.raw_induct
    [where P = "\<lambda>t cs ov st acc y. \<not> (st < int (length t) \<and> (0 < ov \<or> cs \<le> 0))", OF _ assms])
  fix f t cs ov st acc y
  assume IH: "\<And>t cs ov st acc y. f t cs ov st acc = Some y \<Longrightarrow>
      \<not> (st < int (length t) \<and> (0 < ov \<or> cs \<le> 0))"
    and body: "(if st < int (length t) then
        (let stop = min (st + cs) (int (length t));
             chunk = strip (slice t st stop);
             chunks = (if chunk \<noteq> [] then acc @ [chunk] else acc);
             start = (if ov > 0 then stop - ov else stop)
         in if start \<ge> int (length t) then Some chunks
            else f t cs ov start chunks)
      else Some acc) = Some y"
  show "\<not> (st < int (length t) \<and> (0 < ov \<or> cs \<le> 0))"
  proof
    assume inv: "st < int (length t) \<and> (0 < ov \<or> cs \<le> 0)"
    define stop where "stop = min (st + cs) (int (length t))"
    define st' where "st' = (if ov > 0 then stop - ov else stop)"
    define acc' where "acc' = (if strip (slice t st stop) \<noteq> []
      then acc @ [strip (slice t st stop)] else acc)"
    have lt: "st' < int (length t)"
      using inv by (auto simp: st'_def stop_def)
    have "f t cs ov st' acc' = Some y"
      using body inv lt
      by (simp add: Let_def stop_def [symmetric] st'_def [symmetric] acc'_def [symmetric])
    then have "\<not> (st' < int (length t) \<and> (0 < ov \<or> cs \<le> 0))"
      by (rule IH)
    then show False
      using lt inv by blast
  qed
qed

lemma sliding_window_diverges:
  "start < int (length text) \<Longrightarrow> 0 < overlap \<or> chunk_size \<le> 0 \<Longrightarrow>
     sliding_window text chunk_size overlap start chunks = None"
  using sliding_window_returns [of _ chunk_size overlap start chunks]
  by (cases "sliding_window text chunk_size overlap start chunks") auto

text \<open>Every call that reaches the fallback on a text that is not empty, with a
  positive overlap, fails to return.\<close>

lemma split_text_simple_fallback_does_not_return:
  assumes "chunk_size < int (length s)" and "s \<noteq> []" and "0 < overlap"
    and "first_separator s separators = Inr None"
  shows "split_text_simple s chunk_size overlap separators = None"
proof -
  have "sliding_window s chunk_size overlap 0 [] = None"
    using assms(2,3) by (intro sliding_window_diverges) simp_all
  then show ?thesis
    using assms(1,4) by (simp add: split_text_simple.simps)
qed

text \<open>
  C3 does not hold of the code. With a positive overlap the \<open>while\<close> loop of the
  sliding-window fallback never ends: after each window \<open>start = end - overlap\<close> is
  below \<open>n\<close>, so neither the \<open>break\<close> nor the loop test stops it. For the text
  \<open>abcdefghij\<close>, chunk size 4 and overlap 1, with no separator or with separators that
  are not in the text, \<open>split_text_simple\<close> does not return; with overlap 0 it returns
  the three windows.
\<close>

theorem C3_sliding_window_does_not_return:
  "split_text_simple ''abcdefghij'' 4 1 [] = None
   \<and> split_text_simple ''abcdefghij'' 4 1 ['' '', '',''] = None
   \<and> split_text_simple ''abcdefghij'' 4 0 [] = Some (Inr [''abcd'', ''efgh'', ''ij''])"
proof -
  have "sliding_window ''abcdefghij'' 4 1 0 [] = None"
    by (rule sliding_window_diverges) simp_all
  then have "split_text_simple ''abcdefghij'' 4 1 [] = None"
    and "split_text_simple ''abcdefghij'' 4 1 ['' '', '',''] = None"
    by (simp_all add: split_text_simple.simps contains_def find_def slice_index_def)
  moreover have "split_text_simple ''abcdefghij'' 4 0 [] = Some (Inr [''abcd'', ''efgh'', ''ij''])"
    by (simp add: split_text_simple.simps sliding_window.simps slice_def slice_index_def strip_def lstrip_def rstrip_def
        isspace_def)
  ultimately show ?thesis
    by simp
qed

subsection \<open>Every L0 chunk has a child\<close>

lemma extend_each_closed:
  assumes "extend_each f xs = Some (Inr out)"
    and "Q []"
    and "\<And>ys zs. Q ys \<Longrightarrow> Q zs \<Longrightarrow> Q (ys @ zs)"
    and "\<And>x ys. x \<in> set xs \<Longrightarrow> f x = Some (Inr ys) \<Longrightarrow> Q ys"
  shows "Q out"
  using assms(1,4)
proof (induction xs arbitrary: out)
  case Nil
  then show ?case using assms(2) by simp
next
  case (Cons x xs)
  from Cons.prems(1) obtain ys zs where fx: "f x = Some (Inr ys)"
    and rest: "extend_each f xs = Some (Inr zs)" and out: "out = ys @ zs"
    by (auto split: option.splits sum.splits)
  have "Q ys"
    using Cons.prems(2) [of x ys] fx by simp
  moreover have "Q zs"
    by (rule Cons.IH [OF rest]) (rule Cons.prems(2), simp_all)
  ultimately show ?case
    unfolding out by (rule assms(3))
qed

lemma every_L0_has_child_Nil: "every_L0_has_child []"
  by (simp add: every_L0_has_child_def)

lemma every_L0_has_child_append:
  assumes "every_L0_has_child ys" and "every_L0_has_child zs"
  shows "every_L0_has_child (ys @ zs)"
  unfolding every_L0_has_child_def
proof (intro allI impI)
  fix i assume i: "i < length (ys @ zs)" and l0: "chunk_level ((ys @ zs) ! i) = ''L0''"
  show "Suc i < length (ys @ zs) \<and> chunk_level ((ys @ zs) ! Suc i) = ''L1''
        \<and> parent_chunk_id ((ys @ zs) ! Suc i) = Some (chunk_id ((ys @ zs) ! i))"
  proof (cases "i < length ys")
    case True
    then have "chunk_level (ys ! i) = ''L0''"
      using l0 by (simp add: nth_append)
    then have "Suc i < length ys \<and> chunk_level (ys ! Suc i) = ''L1''
        \<and> parent_chunk_id (ys ! Suc i) = Some (chunk_id (ys ! i))"
      using assms(1) True by (simp add: every_L0_has_child_def)
    then show ?thesis
      by (simp add: nth_append)
  next
    case False
    define k where "k = i - length ys"
    have k: "k < length zs" and ik: "i = length ys + k"
      using False i by (simp_all add: k_def)
    have "chunk_level (zs ! k) = ''L0''"
      using l0 by (simp add: ik)
    then have "Suc k < length zs \<and> chunk_level (zs ! Suc k) = ''L1''
        \<and> parent_chunk_id (zs ! Suc k) = Some (chunk_id (zs ! k))"
      using assms(2) k by (simp add: every_L0_has_child_def)
    then show ?thesis
      by (simp add: ik nth_append)
  qed
qed

lemma l1_chunk_fields [simp]:
  "chunk_level (l1_chunk doc l0 l0_id p) = ''L1''"
  "parent_chunk_id (l1_chunk doc l0 l0_id p) = Some l0_id"
  "char_start (l1_chunk doc l0 l0_id p) = piece_start l0 + piece_start (snd p)"
  "char_end (l1_chunk doc l0 l0_id p) = piece_start l0 + piece_end (snd p)"
  "source_document_id (l1_chunk doc l0 l0_id p) = doc_id doc"
  by (simp_all add: l1_chunk_def Let_def split: prod.splits)

text \<open>What one pass of the loop over the L0 chunks appends.\<close>

lemma l0_with_l1s_returns:
  assumes "l0_with_l1s doc l1_size l1_overlap separators (l0_idx, l0) = Some (Inr ys)"
  obtains l1s where
    "create_chunks_from_text (piece_text l0) l1_size l1_overlap separators = Some (Inr l1s)"
    and "ys = \<lparr>chunk_text = piece_text l0, inherited = doc_metadata doc,
           source_document_id = doc_id doc, parent_chunk_id = None,
           chunk_level = ''L0'', chunk_index = l0_idx,
           char_start = piece_start l0, char_end = piece_end l0,
           chunk_id = make_chunk_id (doc_id doc) ''L0'' (piece_start l0) (piece_end l0)\<rparr>
         # map (l1_chunk doc l0 (make_chunk_id (doc_id doc) ''L0'' (piece_start l0) (piece_end l0)))
             (enumerate 0 (if l1s \<noteq> [] then l1s
                else [\<lparr>piece_text = piece_text l0, piece_index = 0, piece_start = 0,
                        piece_end = int (length (piece_text l0))\<rparr>]))"
  using assms by (auto simp: l0_with_l1s_def Let_def split: option.splits sum.splits)

lemma l0_with_l1s_has_child:
  assumes "l0_with_l1s doc l1_size l1_overlap separators p = Some (Inr ys)"
  shows "every_L0_has_child ys"
proof -
  obtain l0_idx l0 where p: "p = (l0_idx, l0)"
    by (cases p)
  from assms [unfolded p] obtain l1s where
    ys: "ys = \<lparr>chunk_text = piece_text l0, inherited = doc_metadata doc,
           source_document_id = doc_id doc, parent_chunk_id = None,
           chunk_level = ''L0'', chunk_index = l0_idx,
           char_start = piece_start l0, char_end = piece_end l0,
           chunk_id = make_chunk_id (doc_id doc) ''L0'' (piece_start l0) (piece_end l0)\<rparr>
         # map (l1_chunk doc l0 (make_chunk_id (doc_id doc) ''L0'' (piece_start l0) (piece_end l0)))
             (enumerate 0 (if l1s \<noteq> [] then l1s
                else [\<lparr>piece_text = piece_text l0, piece_index = 0, piece_start = 0,
                        piece_end = int (length (piece_text l0))\<rparr>]))"
    by (rule l0_with_l1s_returns)
  define l1s' where "l1s' = (if l1s \<noteq> [] then l1s
                else [\<lparr>piece_text = piece_text l0, piece_index = 0, piece_start = 0,
                        piece_end = int (length (piece_text l0))\<rparr>])"
  have ne: "l1s' \<noteq> []"
    by (simp add: l1s'_def)
  show ?thesis
    unfolding every_L0_has_child_def
  proof (intro allI impI)
    fix i assume "i < length ys" and l0: "chunk_level (ys ! i) = ''L0''"
    have "i = 0"
    proof (rule ccontr)
      assume "i \<noteq> 0"
      then obtain j where "i = Suc j" by (cases i) auto
      then have "chunk_level (ys ! i) = ''L1''"
        using \<open>i < length ys\<close> by (simp add: ys)
      then show False using l0 by simp
    qed
    then show "Suc i < length ys \<and> chunk_level (ys ! Suc i) = ''L1''
        \<and> parent_chunk_id (ys ! Suc i) = Some (chunk_id (ys ! i))"
      using ne by (simp add: ys l1s'_def [symmetric])
  qed
qed

lemma chunks_of_document_has_child:
  assumes "chunks_of_document l0_size l0_overlap l1_size l1_overlap separators doc = Some (Inr ys)"
  shows "every_L0_has_child ys"
proof -
  from assms obtain l0s where
    "extend_each (l0_with_l1s doc l1_size l1_overlap separators) (enumerate 0 l0s) = Some (Inr ys)"
    by (auto simp: chunks_of_document_def Let_def split: option.splits sum.splits)
  then show ?thesis
    by (rule extend_each_closed)
      (auto intro: every_L0_has_child_Nil every_L0_has_child_append l0_with_l1s_has_child)
qed

text \<open>
  C10: in every list that \<open>create_hierarchical_chunks\<close> returns, every L0 chunk is
  followed at once by an L1 chunk whose \<open>parent_chunk_id\<close> is the \<open>chunk_id\<close> of that
  L0 chunk. When the split of an L0 chunk's text gives no chunk, the L0 chunk is followed
  by exactly one L1 chunk with the L0 chunk's text, which starts where the L0 chunk
  starts and extends over the length of that text.
\<close>

theorem C10_no_childless_L0:
  "(create_hierarchical_chunks documents l0_size l0_overlap l1_size l1_overlap separators
      = Some (Inr out) \<longrightarrow>
    (\<forall>i < length out. chunk_level (out ! i) = ''L0'' \<longrightarrow>
       Suc i < length out \<and> chunk_level (out ! Suc i) = ''L1''
       \<and> parent_chunk_id (out ! Suc i) = Some (chunk_id (out ! i))))
   \<and> (create_chunks_from_text (piece_text l0) l1_size l1_overlap separators = Some (Inr []) \<longrightarrow>
    (\<exists>c0 c1. l0_with_l1s doc l1_size l1_overlap separators (l0_idx, l0) = Some (Inr [c0, c1])
       \<and> chunk_level c0 = ''L0'' \<and> chunk_level c1 = ''L1''
       \<and> parent_chunk_id c1 = Some (chunk_id c0)
       \<and> chunk_text c0 = piece_text l0 \<and> chunk_text c1 = piece_text l0
       \<and> char_start c0 = piece_start l0 \<and> char_start c1 = piece_start l0
       \<and> char_end c1 = piece_start l0 + int (length (piece_text l0))))"
proof -
  have "every_L0_has_child out"
    if "create_hierarchical_chunks documents l0_size l0_overlap l1_size l1_overlap separators
      = Some (Inr out)"
    using that unfolding create_hierarchical_chunks_def
    by (rule extend_each_closed)
      (auto intro: every_L0_has_child_Nil every_L0_has_child_append chunks_of_document_has_child)
  moreover have "\<exists>c0 c1. l0_with_l1s doc l1_size l1_overlap separators (l0_idx, l0)
         = Some (Inr [c0, c1])
       \<and> chunk_level c0 = ''L0'' \<and> chunk_level c1 = ''L1''
       \<and> parent_chunk_id c1 = Some (chunk_id c0)
       \<and> chunk_text c0 = piece_text l0 \<and> chunk_text c1 = piece_text l0
       \<and> char_start c0 = piece_start l0 \<and> char_start c1 = piece_start l0
       \<and> char_end c1 = piece_start l0 + int (length (piece_text l0))"
    if "create_chunks_from_text (piece_text l0) l1_size l1_overlap separators = Some (Inr [])"
    using that by (simp add: l0_with_l1s_def Let_def l1_chunk_def)
  ultimately show ?thesis
    by (simp add: every_L0_has_child_def)
qed

subsection \<open>Determinism of the chunker\<close>

lemma map_outcome_simps [simp]:
  "map_outcome g None = None"
  "map_outcome g (Some (Inl e)) = Some (Inl e)"
  "map_outcome g (Some (Inr v)) = Some (Inr (g v))"
  by (simp_all add: map_outcome_def)

lemma map_outcome_eq_Inr:
  "map_outcome g r = Some (Inr w) \<longleftrightarrow> (\<exists>v. r = Some (Inr v) \<and> w = g v)"
  by (cases r; cases "the r") (auto simp: map_outcome_def)

lemma extend_each_rel:
  assumes "list_all2 R xs' xs"
    and "\<And>x' x. R x' x \<Longrightarrow> map_outcome (map g') (f' x') = map_outcome (map g) (f x)"
  shows "map_outcome (map g') (extend_each f' xs') = map_outcome (map g) (extend_each f xs)"
  using assms(1)
proof (induction rule: list_all2_induct)
  case Nil
  then show ?case by simp
next
  case (Cons x' xs' x xs)
  have hd: "map_outcome (map g') (f' x') = map_outcome (map g) (f x)"
    using Cons.hyps(1) by (rule assms(2))
  show ?case
    using hd Cons.IH
    by (cases "f' x'"; cases "f x"; cases "extend_each f' xs'"; cases "extend_each f xs")
      (auto simp: map_outcome_def split: sum.splits)
qed


lemma l1_chunk_without_metadata:
  "doc_id doc' = doc_id doc \<Longrightarrow>
     without_metadata (l1_chunk doc' l0 l0_id p) = without_metadata (l1_chunk doc l0 l0_id p)"
  by (cases p) (simp add: l1_chunk_def Let_def without_metadata_def)

lemma l0_with_l1s_without_metadata:
  assumes "doc_id doc' = doc_id doc"
  shows "map_outcome (map without_metadata) (l0_with_l1s doc' l1_size l1_overlap separators p)
       = map_outcome (map without_metadata) (l0_with_l1s doc l1_size l1_overlap separators p)"
proof -
  obtain l0_idx l0 where p: "p = (l0_idx, l0)"
    by (cases p)
  show ?thesis
  proof (cases "create_chunks_from_text (piece_text l0) l1_size l1_overlap separators")
    case None
    then show ?thesis
      by (simp add: p l0_with_l1s_def Let_def)
  next
    case (Some r)
    show ?thesis
    proof (cases r)
      case (Inl e)
      then show ?thesis
        using Some by (simp add: p l0_with_l1s_def Let_def)
    next
      case (Inr l1s)
      then show ?thesis
        using Some assms
        by (simp add: p l0_with_l1s_def Let_def l1_chunk_without_metadata [OF assms]
            without_metadata_def [where c = "\<lparr>chunk_text = _, inherited = _,
              source_document_id = _, parent_chunk_id = _, chunk_level = _, chunk_index = _,
              char_start = _, char_end = _, chunk_id = _\<rparr>"])
    qed
  qed
qed

lemma chunks_of_document_without_metadata:
  assumes "doc_id doc' = doc_id doc" and "doc_text doc' = doc_text doc"
  shows "map_outcome (map without_metadata)
           (chunks_of_document l0_size l0_overlap l1_size l1_overlap separators doc')
       = map_outcome (map without_metadata)
           (chunks_of_document l0_size l0_overlap l1_size l1_overlap separators doc)"
proof -
  have "map_outcome (map without_metadata)
          (extend_each (l0_with_l1s doc' l1_size l1_overlap separators) l0s)
      = map_outcome (map without_metadata)
          (extend_each (l0_with_l1s doc l1_size l1_overlap separators) l0s)" for l0s
    by (rule extend_each_rel [where R = "(=)"])
      (simp_all add: list_all2_same l0_with_l1s_without_metadata [OF assms(1)])
  then show ?thesis
    unfolding chunks_of_document_def Let_def assms(2)
    by (cases "create_chunks_from_text (preprocess_text_for_chunking (doc_text doc))
          l0_size l0_overlap separators")
      (simp_all split: sum.splits)
qed

lemma same_ids_and_texts:
  assumes "map doc_id documents' = map doc_id documents"
    and "map doc_text documents' = map doc_text documents"
  shows "list_all2 (\<lambda>d' d. doc_id d' = doc_id d \<and> doc_text d' = doc_text d) documents' documents"
proof -
  have len: "length documents' = length documents"
    using assms(1) by (rule map_eq_imp_length_eq)
  show ?thesis
  proof (rule list_all2_all_nthI [OF len])
    fix n assume n: "n < length documents'"
    have "map doc_id documents' ! n = map doc_id documents ! n"
      and "map doc_text documents' ! n = map doc_text documents ! n"
      using assms by simp_all
    then show "doc_id (documents' ! n) = doc_id (documents ! n)
        \<and> doc_text (documents' ! n) = doc_text (documents ! n)"
      using n len by simp
  qed
qed

text \<open>
  C6: \<open>create_hierarchical_chunks\<close> is a function of its arguments: two runs on
  identical documents with identical parameters have the same outcome. More is true:
  two runs on document lists that agree on the IDs and the texts, whatever the metadata
  of the documents, have the same outcome up to the inherited metadata, so that when
  both return, the sequences of \<open>chunk_id\<close>, \<open>char_start\<close> and \<open>char_end\<close> are
  identical.
\<close>

theorem C6_deterministic:
  assumes "map doc_id documents' = map doc_id documents"
    and "map doc_text documents' = map doc_text documents"
  shows "map_outcome (map without_metadata)
           (create_hierarchical_chunks documents' l0_size l0_overlap l1_size l1_overlap separators)
       = map_outcome (map without_metadata)
           (create_hierarchical_chunks documents l0_size l0_overlap l1_size l1_overlap separators)
     \<and> (documents' = documents \<longrightarrow>
          create_hierarchical_chunks documents' l0_size l0_overlap l1_size l1_overlap separators
          = create_hierarchical_chunks documents l0_size l0_overlap l1_size l1_overlap separators)
     \<and> (\<forall>out' out.
          create_hierarchical_chunks documents' l0_size l0_overlap l1_size l1_overlap separators
            = Some (Inr out')
          \<and> create_hierarchical_chunks documents l0_size l0_overlap l1_size l1_overlap separators
            = Some (Inr out)
          \<longrightarrow> map chunk_id out' = map chunk_id out
              \<and> map char_start out' = map char_start out
              \<and> map char_end out' = map char_end out)"
proof -
  let ?run' = "create_hierarchical_chunks documents' l0_size l0_overlap l1_size l1_overlap separators"
  let ?run = "create_hierarchical_chunks documents l0_size l0_overlap l1_size l1_overlap separators"
  have eq: "map_outcome (map without_metadata) ?run' = map_outcome (map without_metadata) ?run"
    unfolding create_hierarchical_chunks_def
    by (rule extend_each_rel [OF same_ids_and_texts [OF assms]])
      (blast intro: chunks_of_document_without_metadata)
  have seqs: "map chunk_id out' = map chunk_id out \<and> map char_start out' = map char_start out
      \<and> map char_end out' = map char_end out"
    if "?run' = Some (Inr out')" and "?run = Some (Inr out)" for out' out
  proof -
    have m: "map without_metadata out' = map without_metadata out"
      using eq that by simp
    have "map chunk_id (map without_metadata out') = map chunk_id (map without_metadata out)"
      and "map char_start (map without_metadata out') = map char_start (map without_metadata out)"
      and "map char_end (map without_metadata out') = map char_end (map without_metadata out)"
      by (simp_all only: m)
    then show ?thesis
      by (simp add: o_def without_metadata_def)
  qed
  show ?thesis
    using eq seqs by blast
qed


subsection \<open>Chunks are found in the text in order\<close>




















subsection \<open>The offsets recovered by \<open>create_chunks_from_text\<close>\<close>










subsection \<open>Containment of the chunks\<close>











subsection \<open>The chunker on concrete inputs\<close>

text \<open>The equations that evaluate the chunker on a concrete input.\<close>

lemmas eval_chunker =
  create_hierarchical_chunks_def chunks_of_document_def l0_with_l1s_def l1_chunk_def
  create_chunks_from_text_def preprocess_text_for_chunking_def make_chunk_id_def str_int_def
  digits.simps split_text_simple.simps sliding_window.simps
  strip_def lstrip_def rstrip_def isspace_def contains_def find_def slice_index_def slice_def
  Let_def enumerate_eq_zip upt_rec char_of_def bit_simps

lemma run_ab_cd:
  "create_hierarchical_chunks [\<lparr>doc_id = ''d1'', doc_text = ''ab cd'', doc_metadata = m\<rparr>]
     2 0 2 0 ['' '']
   = Some (Inr
      [\<lparr>chunk_text = ''ab'', inherited = m, source_document_id = ''d1'',
         parent_chunk_id = None, chunk_level = ''L0'', chunk_index = 0,
         char_start = 0, char_end = 2, chunk_id = ''d1_L0_0_2''\<rparr>,
       \<lparr>chunk_text = ''ab'', inherited = m, source_document_id = ''d1'',
         parent_chunk_id = Some ''d1_L0_0_2'', chunk_level = ''L1'', chunk_index = 0,
         char_start = 0, char_end = 2, chunk_id = ''d1_L1_0_2''\<rparr>,
       \<lparr>chunk_text = ''cd'', inherited = m, source_document_id = ''d1'',
         parent_chunk_id = None, chunk_level = ''L0'', chunk_index = 1,
         char_start = 3, char_end = 5, chunk_id = ''d1_L0_3_5''\<rparr>,
       \<lparr>chunk_text = ''cd'', inherited = m, source_document_id = ''d1'',
         parent_chunk_id = Some ''d1_L0_3_5'', chunk_level = ''L1'', chunk_index = 0,
         char_start = 3, char_end = 5, chunk_id = ''d1_L1_3_5''\<rparr>])"
  by (simp add: eval_chunker)

theorem C10_no_childless_L0_witness:
  "(\<exists>out. create_hierarchical_chunks
        [\<lparr>doc_id = ''d1'', doc_text = ''ab cd'', doc_metadata = ()\<rparr>] 2 0 2 0 ['' '']
      = Some (Inr out)
      \<and> length out = 4 \<and> chunk_level (out ! 2) = ''L0'' \<and> chunk_level (out ! 3) = ''L1''
      \<and> chunk_id (out ! 2) = ''d1_L0_3_5''
      \<and> parent_chunk_id (out ! 3) = Some (chunk_id (out ! 2)))
   \<and> create_chunks_from_text '' '' 2 0 ['' ''] = Some (Inr [])
   \<and> (\<exists>c0 c1. l0_with_l1s \<lparr>doc_id = ''d1'', doc_text = ''ab cd'', doc_metadata = ()\<rparr> 2 0 ['' '']
          (0, \<lparr>piece_text = '' '', piece_index = 0, piece_start = 2, piece_end = 3\<rparr>)
        = Some (Inr [c0, c1])
      \<and> parent_chunk_id c1 = Some (chunk_id c0)
      \<and> char_start c1 = 2 \<and> char_end c1 = 3)"
proof -
  let ?d = "\<lparr>doc_id = ''d1'', doc_text = ''ab cd'', doc_metadata = ()\<rparr>"
  let ?l0 = "\<lparr>piece_text = '' '', piece_index = 0, piece_start = 2, piece_end = 3\<rparr>"
  obtain out where run: "create_hierarchical_chunks [?d] 2 0 2 0 ['' ''] = Some (Inr out)"
    and len: "length out = 4" and l0: "chunk_level (out ! 2) = ''L0''"
    and cid: "chunk_id (out ! 2) = ''d1_L0_3_5''"
    using run_ab_cd [of "()"] by simp
  have blank: "create_chunks_from_text (piece_text ?l0) 2 0 ['' ''] = Some (Inr [])"
    by (simp add: create_chunks_from_text_def strip_def lstrip_def rstrip_def isspace_def)
  note inst = C10_no_childless_L0 [of "[?d]" 2 0 2 0 "['' '']" out ?l0 ?d 0]
  have "chunk_level (out ! 3) = ''L1'' \<and> parent_chunk_id (out ! 3) = Some (chunk_id (out ! 2))"
    using inst run len l0 by (simp add: numeral_3_eq_3 numeral_2_eq_2)
  moreover have "\<exists>c0 c1. l0_with_l1s ?d 2 0 ['' ''] (0, ?l0) = Some (Inr [c0, c1])
      \<and> parent_chunk_id c1 = Some (chunk_id c0) \<and> char_start c1 = 2 \<and> char_end c1 = 3"
    using inst blank by auto
  ultimately show ?thesis
    using run len l0 cid blank by auto
qed

theorem C6_deterministic_witness:
  "map doc_id [\<lparr>doc_id = ''d1'', doc_text = ''ab cd'', doc_metadata = ''2024-05-01''\<rparr>]
     = map doc_id [\<lparr>doc_id = ''d1'', doc_text = ''ab cd'', doc_metadata = ''2025-11-03''\<rparr>]
   \<and> map doc_text [\<lparr>doc_id = ''d1'', doc_text = ''ab cd'', doc_metadata = ''2024-05-01''\<rparr>]
     = map doc_text [\<lparr>doc_id = ''d1'', doc_text = ''ab cd'', doc_metadata = ''2025-11-03''\<rparr>]
   \<and> (\<exists>out' out.
        create_hierarchical_chunks
          [\<lparr>doc_id = ''d1'', doc_text = ''ab cd'', doc_metadata = ''2024-05-01''\<rparr>] 2 0 2 0 ['' '']
          = Some (Inr out')
        \<and> create_hierarchical_chunks
          [\<lparr>doc_id = ''d1'', doc_text = ''ab cd'', doc_metadata = ''2025-11-03''\<rparr>] 2 0 2 0 ['' '']
          = Some (Inr out)
        \<and> out' \<noteq> out
        \<and> map chunk_id out' = map chunk_id out
        \<and> map char_start out' = map char_start out
        \<and> map char_end out' = map char_end out
        \<and> map chunk_id out = [''d1_L0_0_2'', ''d1_L1_0_2'', ''d1_L0_3_5'', ''d1_L1_3_5''])"
proof -
  let ?d' = "\<lparr>doc_id = ''d1'', doc_text = ''ab cd'', doc_metadata = ''2024-05-01''\<rparr>"
  let ?d = "\<lparr>doc_id = ''d1'', doc_text = ''ab cd'', doc_metadata = ''2025-11-03''\<rparr>"
  have ids: "map doc_id [?d'] = map doc_id [?d]" and texts: "map doc_text [?d'] = map doc_text [?d]"
    by simp_all
  obtain out' where run': "create_hierarchical_chunks [?d'] 2 0 2 0 ['' ''] = Some (Inr out')"
    and md': "inherited (out' ! 0) = ''2024-05-01''"
    using run_ab_cd [of "''2024-05-01''"] by simp
  obtain out where run: "create_hierarchical_chunks [?d] 2 0 2 0 ['' ''] = Some (Inr out)"
    and md: "inherited (out ! 0) = ''2025-11-03''"
    and cids: "map chunk_id out = [''d1_L0_0_2'', ''d1_L1_0_2'', ''d1_L0_3_5'', ''d1_L1_3_5'']"
    using run_ab_cd [of "''2025-11-03''"] by simp
  have ne: "out' \<noteq> out"
    using md' md by auto
  have "map chunk_id out' = map chunk_id out \<and> map char_start out' = map char_start out
      \<and> map char_end out' = map char_end out"
    using C6_deterministic [OF ids texts, of 2 0 2 0 "['' '']"] run' run by blast
  then have "\<exists>out' out.
        create_hierarchical_chunks [?d'] 2 0 2 0 ['' ''] = Some (Inr out')
        \<and> create_hierarchical_chunks [?d] 2 0 2 0 ['' ''] = Some (Inr out)
        \<and> out' \<noteq> out
        \<and> map chunk_id out' = map chunk_id out
        \<and> map char_start out' = map char_start out
        \<and> map char_end out' = map char_end out
        \<and> map chunk_id out = [''d1_L0_0_2'', ''d1_L1_0_2'', ''d1_L0_3_5'', ''d1_L1_3_5'']"
    using run' run ne cids by (intro exI [of _ out'] exI [of _ out]) simp
  then show ?thesis
    using ids texts by (intro conjI)
qed


end
